theory Spec2Isabelle
  imports Main "HOL-Library.Word"
begin

unbundle bit_operations_syntax

section \<open>The instruction entry of \<open>InstEntry.hpp\<close>\<close>

text \<open>
  The three enumerations of the header. The enumerator \<open>None\<close> of \<open>OperandType\<close> and of
  \<open>OperandMode\<close> carries the name of its enumeration, as the scoped C++ name
  \<open>OperandType::None\<close> does; \<open>InstType::Int\<close> is \<open>Int_Type\<close>.
\<close>

datatype OperandType = IntReg | FpReg | CsReg | VecReg | Imm | OperandType_None

datatype OperandMode = Read | Write | ReadWrite | OperandMode_None

datatype InstType = Load | Store | Multiply | Divide | Branch | Int_Type | Fp
  | Csr | Atomic | Vector | Zba | Zbb | Zbc | Zbe | Zbf | Zbm | Zbp
  | Zbr | Zbs | Zbt

text \<open>\<open>uint32_t\<close> and \<open>unsigned\<close> are 32-bit words.\<close>

type_synonym uint32_t = "32 word"
type_synonym unsigned = "32 word"

definition isFullSizeInst :: "uint32_t \<Rightarrow> bool" where
  "isFullSizeInst inst = ((inst AND 3) = 3)"

definition isCompressedInst :: "uint32_t \<Rightarrow> bool" where
  "isCompressedInst inst = ((inst AND 3) \<noteq> 3)"

definition instructionSize :: "uint32_t \<Rightarrow> unsigned" where
  "instructionSize inst = (if (inst AND 3) = 3 then 4 else 2)"

text \<open>
  Modelled from the spec: \<open>InstId.hpp\<close> is not among the sources. The spec calls the
  identifier a numeric identifier from a fixed enumeration that indexes the dense
  collection of entries (the header's comment on \<open>instId\<close>: an integer between 0 and the
  number of defined instructions), and has the illegal instruction registered first;
  so an identifier is a position, and \<open>InstId::illegal\<close> is position 0.
\<close>

type_synonym InstId = nat

text \<open>
  Modelled from the spec: the enumerator \<open>InstId::illegal\<close> of the absent \<open>InstId.hpp\<close>.
  The illegal instruction is registered first, at position 0.
\<close>

definition illegal :: InstId where
  "illegal = 0"

text \<open>
  The private data members of class \<open>InstEntry\<close>, in the order of the header. A
  member \<open>name_\<close> of the class is the field \<open>name_m\<close> here.
\<close>

record InstEntry =
  name_m :: string
  id_m :: InstId
  code_m :: uint32_t
  codeMask_m :: uint32_t
  type_m :: InstType
  op0Mask_m :: uint32_t
  op1Mask_m :: uint32_t
  op2Mask_m :: uint32_t
  op3Mask_m :: uint32_t
  op0Type_m :: OperandType
  op1Type_m :: OperandType
  op2Type_m :: OperandType
  op3Type_m :: OperandType
  op0Mode_m :: OperandMode
  op1Mode_m :: OperandMode
  op2Mode_m :: OperandMode
  op3Mode_m :: OperandMode
  opCount_m :: unsigned
  ldSize_m :: unsigned
  stSize_m :: unsigned
  isUns_m :: bool
  isCond_m :: bool
  isRegBranch_m :: bool
  isBitManip_m :: bool

subsection \<open>The accessors\<close>

definition name :: "InstEntry \<Rightarrow> string" where
  "name e = name_m e"

definition instId :: "InstEntry \<Rightarrow> InstId" where
  "instId e = id_m e"

definition code :: "InstEntry \<Rightarrow> uint32_t" where
  "code e = code_m e"

definition codeMask :: "InstEntry \<Rightarrow> uint32_t" where
  "codeMask e = codeMask_m e"


definition ithOperandType :: "InstEntry \<Rightarrow> unsigned \<Rightarrow> OperandType" where
  "ithOperandType e i =
     (if i = 0 then op0Type_m e
      else if i = 1 then op1Type_m e
      else if i = 2 then op2Type_m e
      else if i = 3 then op3Type_m e
      else OperandType_None)"

definition ithOperandMode :: "InstEntry \<Rightarrow> unsigned \<Rightarrow> OperandMode" where
  "ithOperandMode e i =
     (if i = 0 then op0Mode_m e
      else if i = 1 then op1Mode_m e
      else if i = 2 then op2Mode_m e
      else if i = 3 then op3Mode_m e
      else OperandMode_None)"

definition isIthOperandWrite :: "InstEntry \<Rightarrow> unsigned \<Rightarrow> bool" where
  "isIthOperandWrite e i =
     (let mode = ithOperandMode e i in mode = Write \<or> mode = ReadWrite)"

definition isIthOperandRead :: "InstEntry \<Rightarrow> unsigned \<Rightarrow> bool" where
  "isIthOperandRead e i =
     (let mode = ithOperandMode e i in mode = Read \<or> mode = ReadWrite)"

definition ithOperandMask :: "InstEntry \<Rightarrow> unsigned \<Rightarrow> uint32_t" where
  "ithOperandMask e i =
     (if i = 0 then op0Mask_m e
      else if i = 1 then op1Mask_m e
      else if i = 2 then op2Mask_m e
      else if i = 3 then op3Mask_m e
      else 0)"

definition isIthOperandIntRegSource :: "InstEntry \<Rightarrow> unsigned \<Rightarrow> bool" where
  "isIthOperandIntRegSource e i =
     (if ithOperandType e i \<noteq> IntReg then False
      else ithOperandMode e i = Read)"

definition isIthOperandFpRegSource :: "InstEntry \<Rightarrow> unsigned \<Rightarrow> bool" where
  "isIthOperandFpRegSource e i =
     (if ithOperandType e i \<noteq> FpReg then False
      else ithOperandMode e i = Read)"

definition type :: "InstEntry \<Rightarrow> InstType" where
  "type e = type_m e"

definition isLoad :: "InstEntry \<Rightarrow> bool" where
  "isLoad e = (type_m e = Load)"

definition isStore :: "InstEntry \<Rightarrow> bool" where
  "isStore e = (type_m e = Store)"

definition isBranch :: "InstEntry \<Rightarrow> bool" where
  "isBranch e = (type_m e = Branch)"

definition isMultiply :: "InstEntry \<Rightarrow> bool" where
  "isMultiply e = (type_m e = Multiply)"

definition isDivide :: "InstEntry \<Rightarrow> bool" where
  "isDivide e = (type_m e = Divide)"

definition isCsr :: "InstEntry \<Rightarrow> bool" where
  "isCsr e = (type_m e = Csr)"

definition isAtomic :: "InstEntry \<Rightarrow> bool" where
  "isAtomic e = (type_m e = Atomic)"

definition isVector :: "InstEntry \<Rightarrow> bool" where
  "isVector e = (type_m e = Vector)"

definition isUnsigned :: "InstEntry \<Rightarrow> bool" where
  "isUnsigned e = isUns_m e"

definition isBranchToRegister :: "InstEntry \<Rightarrow> bool" where
  "isBranchToRegister e = isRegBranch_m e"

definition isConditionalBranch :: "InstEntry \<Rightarrow> bool" where
  "isConditionalBranch e = isCond_m e"

definition isBitManipulation :: "InstEntry \<Rightarrow> bool" where
  "isBitManipulation e = isBitManip_m e"

definition loadSize :: "InstEntry \<Rightarrow> unsigned" where
  "loadSize e = ldSize_m e"

definition storeSize :: "InstEntry \<Rightarrow> unsigned" where
  "storeSize e = stSize_m e"

subsection \<open>The protected setters\<close>


definition setLoadSize :: "unsigned \<Rightarrow> InstEntry \<Rightarrow> InstEntry" where
  "setLoadSize size' e = e\<lparr>ldSize_m := size'\<rparr>"

definition setStoreSize :: "unsigned \<Rightarrow> InstEntry \<Rightarrow> InstEntry" where
  "setStoreSize size' e = e\<lparr>stSize_m := size'\<rparr>"



section \<open>The parts defined outside the header\<close>

subsection \<open>The constructor of \<open>InstEntry\<close>\<close>

text \<open>
  Modelled from the spec: the constructor \<open>InstEntry::InstEntry\<close> is declared in the
  header, with its default arguments, and defined outside the sources. The spec has
  construction take the base fields, has \<open>operandCount\<close> be the number of slots whose
  type is not \<open>None\<close>, and leaves the derived flags and sizes to the table, so they keep
  the default member initialisers of the header.
\<close>

definition InstEntry_ctor ::
  "string \<Rightarrow> InstId \<Rightarrow> uint32_t \<Rightarrow> uint32_t \<Rightarrow> InstType
   \<Rightarrow> OperandType \<Rightarrow> OperandMode \<Rightarrow> uint32_t
   \<Rightarrow> OperandType \<Rightarrow> OperandMode \<Rightarrow> uint32_t
   \<Rightarrow> OperandType \<Rightarrow> OperandMode \<Rightarrow> uint32_t
   \<Rightarrow> OperandType \<Rightarrow> OperandMode \<Rightarrow> uint32_t \<Rightarrow> InstEntry" where
  "InstEntry_ctor name' id' code' mask' type'
     op0Type op0Mode op0Mask op1Type op1Mode op1Mask
     op2Type op2Mode op2Mask op3Type op3Mode op3Mask =
   \<lparr>name_m = name', id_m = id', code_m = code', codeMask_m = mask', type_m = type',
    op0Mask_m = op0Mask, op1Mask_m = op1Mask, op2Mask_m = op2Mask, op3Mask_m = op3Mask,
    op0Type_m = op0Type, op1Type_m = op1Type, op2Type_m = op2Type, op3Type_m = op3Type,
    op0Mode_m = op0Mode, op1Mode_m = op1Mode, op2Mode_m = op2Mode, op3Mode_m = op3Mode,
    opCount_m =
      (if op0Type \<noteq> OperandType_None then 1 else 0)
      + (if op1Type \<noteq> OperandType_None then 1 else 0)
      + (if op2Type \<noteq> OperandType_None then 1 else 0)
      + (if op3Type \<noteq> OperandType_None then 1 else 0),
    ldSize_m = 0, stSize_m = 0, isUns_m = False, isCond_m = False,
    isRegBranch_m = False, isBitManip_m = False\<rparr>"

text \<open>
  The default arguments of the declaration in the header: an operand that a call leaves
  out has type \<open>None\<close>, mode \<open>None\<close> and mask 0. A call gives the operands from slot 0
  on, so a call is its list of operands, and slot \<open>i\<close> of a call that gives fewer than
  \<open>i + 1\<close> operands is the default.
\<close>

type_synonym operand = "OperandType \<times> OperandMode \<times> uint32_t"

definition defaultOperand :: operand where
  "defaultOperand = (OperandType_None, OperandMode_None, 0)"

definition argOperand :: "operand list \<Rightarrow> nat \<Rightarrow> operand" where
  "argOperand ops i = (if i < length ops then ops ! i else defaultOperand)"

definition InstEntry_call ::
  "string \<Rightarrow> InstId \<Rightarrow> uint32_t \<Rightarrow> uint32_t \<Rightarrow> InstType \<Rightarrow> operand list \<Rightarrow> InstEntry" where
  "InstEntry_call name' id' code' mask' type' ops =
     (case (argOperand ops 0, argOperand ops 1, argOperand ops 2, argOperand ops 3) of
        ((t0, m0, k0), (t1, m1, k1), (t2, m2, k2), (t3, m3, k3)) \<Rightarrow>
          InstEntry_ctor name' id' code' mask' type' t0 m0 k0 t1 m1 k1 t2 m2 k2 t3 m3 k3)"



subsection \<open>The instruction table\<close>

text \<open>The two data members of class \<open>InstTable\<close>.\<close>

record InstTable =
  instVec_m :: "InstEntry list"
  instMap_m :: "string \<rightharpoonup> InstId"

text \<open>
  The constructor \<open>InstTable::InstTable\<close>, its helper \<open>setupInstVec\<close> and the four
  queries are declared in the header and defined outside the sources, together with the
  catalog that the constructor enumerates. The catalog is a parameter here: the entries
  of the instruction variants in catalog order, as the table holds them once the
  constructor has set their derived flags and sizes.
\<close>

text \<open>
  Modelled from the spec: \<open>setupInstVec\<close>, the helper of the constructor, is not among
  the sources. Construction appends every entry to the identifier-indexed collection in
  catalog order.
\<close>

definition setupInstVec :: "InstEntry list \<Rightarrow> InstTable \<Rightarrow> InstTable" where
  "setupInstVec catalog t = t\<lparr>instVec_m := instVec_m t @ catalog\<rparr>"

text \<open>
  Modelled from the spec: the step of the constructor, not among the sources, that
  inserts \<open>(name, id)\<close> of an entry into the name index. The index keeps one identifier
  for a name; an insertion under a name already present replaces the earlier one.
\<close>

definition insertName :: "InstEntry \<Rightarrow> (string \<rightharpoonup> InstId) \<Rightarrow> (string \<rightharpoonup> InstId)" where
  "insertName e m = m(name e \<mapsto> instId e)"

text \<open>
  Modelled from the spec: the constructor \<open>InstTable::InstTable\<close> is not among the
  sources. It populates the collection from the catalog and then the name index from
  the entries of the collection, starting from an empty table.
\<close>

definition InstTable_ctor :: "InstEntry list \<Rightarrow> InstTable" where
  "InstTable_ctor catalog =
     (let t = setupInstVec catalog \<lparr>instVec_m = [], instMap_m = Map.empty\<rparr>
      in t\<lparr>instMap_m := fold insertName (instVec_m t) (instMap_m t)\<rparr>)"

text \<open>
  Modelled from the spec: the sentinel that a failed lookup returns is the entry at the
  identifier of the illegal instruction. The code that picks it is not among the
  sources. A table without that entry has no sentinel to return: the result \<open>None\<close>.
\<close>

definition sentinel :: "InstTable \<Rightarrow> InstEntry option" where
  "sentinel t =
     (if illegal < length (instVec_m t) then Some (instVec_m t ! illegal) else None)"

text \<open>
  Modelled from the spec: \<open>InstTable::getEntry(InstId)\<close> is not among the sources. It
  returns the entry at position \<open>id\<close> when \<open>id\<close> is in the populated range and the
  sentinel otherwise.
\<close>

definition getEntry_id :: "InstTable \<Rightarrow> InstId \<Rightarrow> InstEntry option" where
  "getEntry_id t i =
     (if i < length (instVec_m t) then Some (instVec_m t ! i) else sentinel t)"

text \<open>
  Modelled from the spec: \<open>InstTable::getEntry(const std::string&)\<close> is not among the
  sources. It returns the entry whose identifier is found through the name index and
  the sentinel when the index has no such name.
\<close>

definition getEntry_name :: "InstTable \<Rightarrow> string \<Rightarrow> InstEntry option" where
  "getEntry_name t n =
     (case instMap_m t n of None \<Rightarrow> sentinel t | Some i \<Rightarrow> getEntry_id t i)"

text \<open>
  Modelled from the spec: \<open>InstTable::hasInfo(InstId)\<close> is not among the sources. It
  tells whether the identifier is present in the table (the header's comment), that is
  whether the lookup by identifier does not fall back to the sentinel.
\<close>

definition hasInfo_id :: "InstTable \<Rightarrow> InstId \<Rightarrow> bool" where
  "hasInfo_id t i = (i < length (instVec_m t))"

text \<open>
  Modelled from the spec: \<open>InstTable::hasInfo(const std::string&)\<close> is not among the
  sources. It tells whether the name is present in the name index.
\<close>

definition hasInfo_name :: "InstTable \<Rightarrow> string \<Rightarrow> bool" where
  "hasInfo_name t n = (instMap_m t n \<noteq> None)"

section \<open>Properties of the accessors\<close>

lemma unsigned_ge_4:
  "4 \<le> (i::unsigned) \<Longrightarrow> i \<noteq> 0 \<and> i \<noteq> 1 \<and> i \<noteq> 2 \<and> i \<noteq> 3"
  by (auto simp: word_le_nat_alt)


text \<open>
  C5: for every entry and every index \<open>i\<close>, \<open>isIthOperandRead(i)\<close> holds exactly when
  \<open>ithOperandMode(i)\<close> is \<open>Read\<close> or \<open>ReadWrite\<close>, and \<open>isIthOperandWrite(i)\<close> holds
  exactly when \<open>ithOperandMode(i)\<close> is \<open>Write\<close> or \<open>ReadWrite\<close>.
\<close>

theorem isIthOperandRead_Write_iff:
  "isIthOperandRead e i = (ithOperandMode e i = Read \<or> ithOperandMode e i = ReadWrite)
   \<and> isIthOperandWrite e i = (ithOperandMode e i = Write \<or> ithOperandMode e i = ReadWrite)"
  by (simp add: isIthOperandRead_def isIthOperandWrite_def Let_def)

text \<open>
  C6: for every entry and every index \<open>i\<close>, \<open>isIthOperandIntRegSource(i)\<close> holds exactly
  when \<open>ithOperandType(i)\<close> is \<open>IntReg\<close> and \<open>ithOperandMode(i)\<close> is \<open>Read\<close> (so not
  \<open>ReadWrite\<close>), and \<open>isIthOperandFpRegSource(i)\<close> holds exactly when \<open>ithOperandType(i)\<close>
  is \<open>FpReg\<close> and \<open>ithOperandMode(i)\<close> is \<open>Read\<close>.
\<close>

theorem isIthOperandRegSource_iff:
  "isIthOperandIntRegSource e i = (ithOperandType e i = IntReg \<and> ithOperandMode e i = Read)
   \<and> isIthOperandFpRegSource e i = (ithOperandType e i = FpReg \<and> ithOperandMode e i = Read)"
  by (simp add: isIthOperandIntRegSource_def isIthOperandFpRegSource_def)

text \<open>
  C10: for every entry and every unsigned index \<open>i\<close> with \<open>4 \<le> i\<close>, however large,
  \<open>ithOperandType(i)\<close> is \<open>None\<close>, \<open>ithOperandMode(i)\<close> is \<open>None\<close> and
  \<open>ithOperandMask(i)\<close> is 0. The accessors are total functions of the index: none of
  them has an error branch.
\<close>

theorem ithOperand_beyond_slots:
  "4 \<le> i \<Longrightarrow>
     ithOperandType e i = OperandType_None
     \<and> ithOperandMode e i = OperandMode_None
     \<and> ithOperandMask e i = 0"
  using unsigned_ge_4 [of i]
  by (simp add: ithOperandType_def ithOperandMode_def ithOperandMask_def)

theorem ithOperand_beyond_slots_witness:
  "(4::unsigned) \<le> 4294967295
   \<and> ithOperandType
       \<lparr>name_m = ''lw'', id_m = 1, code_m = 0x2003, codeMask_m = 0x707f, type_m = Load,
        op0Mask_m = 0xf80, op1Mask_m = 0xf8000, op2Mask_m = 0xfff00000, op3Mask_m = 0xffffffff,
        op0Type_m = IntReg, op1Type_m = IntReg, op2Type_m = Imm, op3Type_m = IntReg,
        op0Mode_m = Write, op1Mode_m = Read, op2Mode_m = Read, op3Mode_m = ReadWrite,
        opCount_m = 4, ldSize_m = 4, stSize_m = 0, isUns_m = False, isCond_m = False,
        isRegBranch_m = False, isBitManip_m = False\<rparr> 4294967295 = OperandType_None
   \<and> ithOperandMode
       \<lparr>name_m = ''lw'', id_m = 1, code_m = 0x2003, codeMask_m = 0x707f, type_m = Load,
        op0Mask_m = 0xf80, op1Mask_m = 0xf8000, op2Mask_m = 0xfff00000, op3Mask_m = 0xffffffff,
        op0Type_m = IntReg, op1Type_m = IntReg, op2Type_m = Imm, op3Type_m = IntReg,
        op0Mode_m = Write, op1Mode_m = Read, op2Mode_m = Read, op3Mode_m = ReadWrite,
        opCount_m = 4, ldSize_m = 4, stSize_m = 0, isUns_m = False, isCond_m = False,
        isRegBranch_m = False, isBitManip_m = False\<rparr> 4294967295 = OperandMode_None
   \<and> ithOperandMask
       \<lparr>name_m = ''lw'', id_m = 1, code_m = 0x2003, codeMask_m = 0x707f, type_m = Load,
        op0Mask_m = 0xf80, op1Mask_m = 0xf8000, op2Mask_m = 0xfff00000, op3Mask_m = 0xffffffff,
        op0Type_m = IntReg, op1Type_m = IntReg, op2Type_m = Imm, op3Type_m = IntReg,
        op0Mode_m = Write, op1Mode_m = Read, op2Mode_m = Read, op3Mode_m = ReadWrite,
        opCount_m = 4, ldSize_m = 4, stSize_m = 0, isUns_m = False, isCond_m = False,
        isRegBranch_m = False, isBitManip_m = False\<rparr> 4294967295 = 0"
proof -
  have h: "(4::unsigned) \<le> 4294967295" by simp
  show ?thesis using h ithOperand_beyond_slots [OF h] by simp
qed

section \<open>Operand slots of a constructed entry\<close>














section \<open>Lookup in the instruction table\<close>

text \<open>What the constructor leaves in the two members, as a function of the catalog.\<close>

lemma InstTable_ctor_instVec: "instVec_m (InstTable_ctor catalog) = catalog"
  by (simp add: InstTable_ctor_def setupInstVec_def Let_def)

lemma InstTable_ctor_instMap:
  "instMap_m (InstTable_ctor catalog) = fold insertName catalog Map.empty"
  by (simp add: InstTable_ctor_def setupInstVec_def Let_def)

lemma fold_insertName_None:
  "(fold insertName xs m k = None) = (m k = None \<and> k \<notin> set (map name xs))"
  by (induction xs arbitrary: m) (auto simp: insertName_def)

lemma fold_insertName_Some:
  "fold insertName xs m k = Some v
   \<Longrightarrow> m k = Some v \<or> (\<exists>x\<in>set xs. name x = k \<and> instId x = v)"
  by (induction xs arbitrary: m) (fastforce simp: insertName_def split: if_splits)+

lemma fold_insertName_notin:
  "k \<notin> set (map name xs) \<Longrightarrow> fold insertName xs m k = m k"
  by (induction xs arbitrary: m) (auto simp: insertName_def)

lemma fold_insertName_distinct:
  "distinct (map name xs) \<Longrightarrow> x \<in> set xs
   \<Longrightarrow> fold insertName xs m (name x) = Some (instId x)"
proof (induction xs arbitrary: m)
  case Nil
  then show ?case by simp
next
  case (Cons y ys)
  show ?case
  proof (cases "x = y")
    case True
    with Cons.prems have "name x \<notin> set (map name ys)" by simp
    then have "fold insertName ys (insertName y m) (name x) = insertName y m (name x)"
      by (rule fold_insertName_notin)
    moreover have "insertName y m (name x) = Some (instId x)"
      using True by (simp add: insertName_def)
    ultimately show ?thesis by simp
  next
    case False
    with Cons show ?thesis by simp
  qed
qed

lemma catalog_dense_nth:
  "map instId catalog = [0..<length catalog] \<Longrightarrow> i < length catalog
   \<Longrightarrow> instId (catalog ! i) = i"
  by (metis nth_map nth_upt add_0)

lemma catalog_dense_mem: 
  assumes "map instId catalog = [0..<length catalog]" "x \<in> set catalog"
  shows "instId x < length catalog \<and> catalog ! instId x = x"
proof -
  from assms(2) obtain i where i: "i < length catalog" "catalog ! i = x" by (auto simp: in_set_conv_nth)
  with catalog_dense_nth [OF assms(1) i(1)] show ?thesis by simp
qed

lemma InstEntry_call_fields:
  "name (InstEntry_call n i c m t ops) = n"
  "instId (InstEntry_call n i c m t ops) = i"
  "code (InstEntry_call n i c m t ops) = c"
  "codeMask (InstEntry_call n i c m t ops) = m"
  "type (InstEntry_call n i c m t ops) = t"
  by (simp_all add: name_def instId_def code_def codeMask_def type_def
      InstEntry_call_def InstEntry_ctor_def split: prod.splits)

lemma getEntry_id_registered:
  assumes "map instId catalog = [0..<length catalog]" and "X \<in> set catalog"
  shows "getEntry_id (InstTable_ctor catalog) (instId X) = Some X"
  using catalog_dense_mem [OF assms] by (simp add: getEntry_id_def InstTable_ctor_instVec)

lemma getEntry_name_registered:
  assumes "map instId catalog = [0..<length catalog]" and "distinct (map name catalog)"
    and "X \<in> set catalog"
  shows "getEntry_name (InstTable_ctor catalog) (name X) = Some X"
  using fold_insertName_distinct [OF assms(2,3), of Map.empty]
    getEntry_id_registered [OF assms(1,3)]
  by (simp add: getEntry_name_def InstTable_ctor_instMap)

text \<open>
  C1: for every identifier \<open>i\<close>, \<open>getEntry(i)\<close> returns the entry stored at position
  \<open>i\<close> when \<open>i\<close> is in the populated range and the illegal-instruction sentinel
  otherwise; for every string \<open>n\<close>, \<open>getEntry(n)\<close> returns the entry whose identifier the
  name index gives for \<open>n\<close> when \<open>n\<close> is registered and the sentinel otherwise; neither
  query fails. The table is the one the constructor builds from a catalog that has an
  entry (the illegal instruction, registered first) and gives the entry at position
  \<open>k\<close> the identifier \<open>k\<close>.
\<close>

theorem getEntry_never_fails:
  assumes "catalog \<noteq> []" and "map instId catalog = [0..<length catalog]"
  shows "let t = InstTable_ctor catalog in
     getEntry_id t i = Some (if i < length catalog then catalog ! i else catalog ! illegal)
     \<and> getEntry_name t n =
         Some (case instMap_m t n of None \<Rightarrow> catalog ! illegal | Some j \<Rightarrow> catalog ! j)
     \<and> (\<forall>j. instMap_m t n = Some j \<longrightarrow> j < length catalog \<and> instId (catalog ! j) = j)"
proof -
  let ?t = "InstTable_ctor catalog"
  have sen: "sentinel ?t = Some (catalog ! illegal)"
    using assms(1) by (simp add: sentinel_def InstTable_ctor_instVec illegal_def)
  have byid: "getEntry_id ?t k = Some (if k < length catalog then catalog ! k else catalog ! illegal)" for k
    by (simp add: getEntry_id_def InstTable_ctor_instVec sen)
  have reg: "j < length catalog \<and> instId (catalog ! j) = j" if "instMap_m ?t n = Some j" for j
  proof -
    from that fold_insertName_Some [of catalog Map.empty n j]
    obtain x where "x \<in> set catalog" "instId x = j" by (auto simp: InstTable_ctor_instMap)
    with catalog_dense_mem [OF assms(2), of x] show ?thesis by simp
  qed
  have byname: "getEntry_name ?t n =
      Some (case instMap_m ?t n of None \<Rightarrow> catalog ! illegal | Some j \<Rightarrow> catalog ! j)"
    using reg by (simp add: getEntry_name_def sen byid split: option.splits)
  show ?thesis using byid [of i] byname reg by (simp add: Let_def)
qed

theorem getEntry_never_fails_witness:
  "let illegalEntry = InstEntry_call ''illegal'' 0 0xffffffff 0xffffffff Int_Type [];
       lw = InstEntry_call ''lw'' 1 0x2003 0x707f Load
              [(IntReg, Write, 0xf80), (IntReg, Read, 0xf8000), (Imm, Read, 0xfff00000)];
       add = InstEntry_call ''add'' 2 0x33 0xfe00707f Int_Type
              [(IntReg, Write, 0xf80), (IntReg, Read, 0xf8000), (IntReg, Read, 0x1f00000)];
       catalog = [illegalEntry, lw, add];
       t = InstTable_ctor catalog in
   catalog \<noteq> [] \<and> map instId catalog = [0..<length catalog]
   \<and> getEntry_id t 1 = Some lw \<and> getEntry_id t 7 = Some illegalEntry
   \<and> getEntry_name t ''add'' = Some add \<and> getEntry_name t ''nop'' = Some illegalEntry"
proof -
  let ?i = "InstEntry_call ''illegal'' 0 0xffffffff 0xffffffff Int_Type []"
  let ?l = "InstEntry_call ''lw'' 1 0x2003 0x707f Load
              [(IntReg, Write, 0xf80), (IntReg, Read, 0xf8000), (Imm, Read, 0xfff00000)]"
  let ?a = "InstEntry_call ''add'' 2 0x33 0xfe00707f Int_Type
              [(IntReg, Write, 0xf80), (IntReg, Read, 0xf8000), (IntReg, Read, 0x1f00000)]"
  let ?c = "[?i, ?l, ?a]"
  have h1: "?c \<noteq> []" by simp
  have h2: "map instId ?c = [0..<length ?c]" by (simp add: InstEntry_call_fields upt_rec)
  have m1: "instMap_m (InstTable_ctor ?c) ''add'' = Some 2"
    by (simp add: InstTable_ctor_instMap insertName_def InstEntry_call_fields)
  have m2: "instMap_m (InstTable_ctor ?c) ''nop'' = None"
    by (simp add: InstTable_ctor_instMap insertName_def InstEntry_call_fields)
  show ?thesis
    using h1 h2 getEntry_never_fails [OF h1 h2, of 1 "''add''"]
      getEntry_never_fails [OF h1 h2, of 7 "''nop''"] m1 m2
    by (simp add: Let_def illegal_def)
qed

text \<open>
  C2: for every identifier \<open>i\<close>, \<open>hasInfo(i)\<close> holds exactly when \<open>getEntry(i)\<close> does not
  fall back to the sentinel, that is when \<open>i\<close> is in the populated range; for every
  string \<open>n\<close>, \<open>hasInfo(n)\<close> holds exactly when \<open>n\<close> is registered in the name index,
  which is when an entry of the catalog has that name. So \<open>hasInfo\<close> is false for an
  identifier outside the populated range and for an unregistered mnemonic.
\<close>

theorem hasInfo_iff_found:
  "let t = InstTable_ctor catalog in
     hasInfo_id t i = (i < length catalog)
     \<and> getEntry_id t i = (if hasInfo_id t i then Some (catalog ! i) else sentinel t)
     \<and> hasInfo_name t n = (n \<in> dom (instMap_m t))
     \<and> hasInfo_name t n = (n \<in> set (map name catalog))
     \<and> (\<not> hasInfo_name t n \<longrightarrow> getEntry_name t n = sentinel t)
     \<and> (hasInfo_name t n \<longrightarrow>
          (\<exists>j. instMap_m t n = Some j \<and> getEntry_name t n = getEntry_id t j))"
proof -
  let ?t = "InstTable_ctor catalog"
  have a: "hasInfo_id ?t i = (i < length catalog)"
    by (simp add: hasInfo_id_def InstTable_ctor_instVec)
  have b: "getEntry_id ?t i = (if hasInfo_id ?t i then Some (catalog ! i) else sentinel ?t)"
    by (simp add: hasInfo_id_def getEntry_id_def InstTable_ctor_instVec)
  have c: "hasInfo_name ?t n = (n \<in> dom (instMap_m ?t))"
    by (simp add: hasInfo_name_def dom_def)
  have d: "hasInfo_name ?t n = (n \<in> set (map name catalog))"
    using fold_insertName_None [of catalog Map.empty n]
    by (simp add: hasInfo_name_def InstTable_ctor_instMap)
  have e: "\<not> hasInfo_name ?t n \<longrightarrow> getEntry_name ?t n = sentinel ?t"
    by (simp add: hasInfo_name_def getEntry_name_def)
  have f: "hasInfo_name ?t n \<longrightarrow>
      (\<exists>j. instMap_m ?t n = Some j \<and> getEntry_name ?t n = getEntry_id ?t j)"
    by (cases "instMap_m ?t n") (simp_all add: hasInfo_name_def getEntry_name_def)
  from a b c d e f show ?thesis unfolding Let_def by blast
qed

theorem hasInfo_iff_found_witness:
  "let illegalEntry = InstEntry_call ''illegal'' 0 0xffffffff 0xffffffff Int_Type [];
       lw = InstEntry_call ''lw'' 1 0x2003 0x707f Load
              [(IntReg, Write, 0xf80), (IntReg, Read, 0xf8000), (Imm, Read, 0xfff00000)];
       t = InstTable_ctor [illegalEntry, lw] in
   hasInfo_id t 1 \<and> getEntry_id t 1 = Some lw
   \<and> \<not> hasInfo_id t 2 \<and> getEntry_id t 2 = Some illegalEntry
   \<and> hasInfo_name t ''lw'' \<and> getEntry_name t ''lw'' = Some lw
   \<and> \<not> hasInfo_name t ''not_a_real_mnemonic''
   \<and> getEntry_name t ''not_a_real_mnemonic'' = Some illegalEntry"
proof -
  let ?i = "InstEntry_call ''illegal'' 0 0xffffffff 0xffffffff Int_Type []"
  let ?l = "InstEntry_call ''lw'' 1 0x2003 0x707f Load
              [(IntReg, Write, 0xf80), (IntReg, Read, 0xf8000), (Imm, Read, 0xfff00000)]"
  let ?t = "InstTable_ctor [?i, ?l]"
  note found = hasInfo_iff_found [of "[?i, ?l]" 1 "''lw''", unfolded Let_def]
  note lost = hasInfo_iff_found [of "[?i, ?l]" 2 "''not_a_real_mnemonic''", unfolded Let_def]
  have sen: "sentinel ?t = Some ?i"
    by (simp add: sentinel_def InstTable_ctor_instVec illegal_def)
  have m: "instMap_m ?t ''lw'' = Some 1"
    by (simp add: InstTable_ctor_instMap insertName_def InstEntry_call_fields)
  have i1: "hasInfo_id ?t 1"
    using found [THEN conjunct1] by simp
  have g1: "getEntry_id ?t 1 = Some ?l"
    using found [THEN conjunct2, THEN conjunct1] i1 by simp
  have i2: "\<not> hasInfo_id ?t 2"
    using lost [THEN conjunct1] by simp
  have g2: "getEntry_id ?t 2 = Some ?i"
    using lost [THEN conjunct2, THEN conjunct1] i2 sen by simp
  have n1: "hasInfo_name ?t ''lw''"
    using found [THEN conjunct2, THEN conjunct2, THEN conjunct2, THEN conjunct1]
    by (simp add: InstEntry_call_fields)
  have e1: "getEntry_name ?t ''lw'' = Some ?l"
    using found [THEN conjunct2, THEN conjunct2, THEN conjunct2, THEN conjunct2,
        THEN conjunct2] n1 m g1 by auto
  have n2: "\<not> hasInfo_name ?t ''not_a_real_mnemonic''"
    using lost [THEN conjunct2, THEN conjunct2, THEN conjunct2, THEN conjunct1]
    by (simp add: InstEntry_call_fields)
  have e2: "getEntry_name ?t ''not_a_real_mnemonic'' = Some ?i"
    using lost [THEN conjunct2, THEN conjunct2, THEN conjunct2, THEN conjunct2,
        THEN conjunct1] n2 sen by simp
  from i1 g1 i2 g2 n1 e1 n2 e2 show ?thesis unfolding Let_def by blast
qed





section \<open>Load and store\<close>

text \<open>
  What the header alone fixes about the sizes: a load is not a store, and the setters
  change a size without looking at the type of the entry.
\<close>

lemma isLoad_isStore_exclusive: "\<not> (isLoad e \<and> isStore e)"
  by (simp add: isLoad_def isStore_def)

lemma setLoadSize_loadSize:
  "loadSize (setLoadSize s e) = s \<and> isLoad (setLoadSize s e) = isLoad e"
  by (simp add: loadSize_def setLoadSize_def isLoad_def)

lemma setStoreSize_storeSize:
  "storeSize (setStoreSize s e) = s \<and> isStore (setStoreSize s e) = isStore e"
  by (simp add: storeSize_def setStoreSize_def isStore_def)

end
